theory Spec2Isabelle
  imports Complex_Main
begin

section \<open>Numbers and helpers\<close>

text \<open>
  The component is JavaScript; its numbers are IEEE doubles. They are modelled here as
  real numbers: every quantity below is produced from finite event fields (the DOM
  declares \<open>deltaY\<close>, \<open>clientX\<close> and \<open>clientY\<close> as finite numbers, so no NaN enters)
  by a handful of additions and multiplications, and the statements proved are about
  which expression is computed and which bounds it respects, not about rounding.

  \<^verbatim>\<open>const lerp = (start, end, factor) => start + (end - start) * factor;\<close>
\<close>

definition lerp :: "real \<Rightarrow> real \<Rightarrow> real \<Rightarrow> real" where
  "lerp start finish factor = start + (finish - start) * factor"

text \<open>An object literal \<open>{ x, y }\<close> and a three-element array \<open>[a, b, c]\<close>.\<close>

record xy =
  xy_x :: real
  xy_y :: real

type_synonym vec3 = "real \<times> real \<times> real"

section \<open>The root component \<open>Moodboard3D\<close> (refined version)\<close>

text \<open>
  The value held by \<open>canvasError\<close>: \<open>null\<close> initially, whatever value the
  \<open>onError\<close> callback is handed, or the string literal stored on context loss. The
  view is chosen by JavaScript truthiness: \<open>null\<close> and the empty string are falsy,
  every object and every other string is truthy.
\<close>

datatype js_value = Null | ErrorObject string | StringValue string

fun truthy :: "js_value \<Rightarrow> bool" where
  "truthy Null = False"
| "truthy (ErrorObject m) = True"
| "truthy (StringValue s) = (s \<noteq> [])"

text \<open>The seven \<open>useState\<close> cells of the root component.\<close>

record moodboard =
  zoomLevel :: real
  panOffset :: xy
  targetPosition :: vec3
  scrollProgress :: real
  isDragging :: bool
  dragStart :: xy
  canvasError :: js_value

definition initial :: moodboard where
  "initial =
     \<lparr> zoomLevel = 1,
       panOffset = \<lparr> xy_x = 0, xy_y = 0 \<rparr>,
       targetPosition = (0, 0, 35),
       scrollProgress = 0,
       isDragging = False,
       dragStart = \<lparr> xy_x = 0, xy_y = 0 \<rparr>,
       canvasError = Null \<rparr>"

text \<open>
  The events the component reacts to. \<open>ScrollFrame\<close> is one run of the per-frame
  callback of \<open>ScrollContent\<close>; it carries the \<open>offset\<close> of the scroll object handed
  out by the scrolling framework, or \<open>None\<close> when that object is falsy.
\<close>

datatype event =
    Wheel (deltaY: real)
  | MouseDown (clientX: real) (clientY: real)
  | MouseMove (clientX: real) (clientY: real)
  | MouseUp
  | KeyDown (key: string)
  | CanvasOnError (argument: js_value)
  | WebglContextLost
  | ScrollFrame (offset: "real option")

text \<open>
  Every handler returns the new state together with a flag telling whether it called
  \<open>event.preventDefault()\<close>. A handler reads the state cells as they are when
  the event arrives: the component re-binds its listeners whenever a handler that
  closes over state (\<open>handleMouseMove\<close>) is re-created.
\<close>

definition handleWheel :: "real \<Rightarrow> moodboard \<Rightarrow> bool \<times> moodboard" where
  "handleWheel dY s =
     (True,
      s\<lparr> zoomLevel :=
           (let prevZoom = zoomLevel s;
                zoomSpeed = 0.002;
                newZoom = prevZoom - dY * zoomSpeed
            in max 0.3 (min newZoom 8)) \<rparr>)"

definition handleMouseDown :: "real \<Rightarrow> real \<Rightarrow> moodboard \<Rightarrow> bool \<times> moodboard" where
  "handleMouseDown cx cy s =
     (False, s\<lparr> isDragging := True, dragStart := \<lparr> xy_x = cx, xy_y = cy \<rparr> \<rparr>)"

definition handleMouseMove :: "real \<Rightarrow> real \<Rightarrow> moodboard \<Rightarrow> bool \<times> moodboard" where
  "handleMouseMove cx cy s =
     (if \<not> isDragging s then (False, s)
      else
        let deltaX = cx - xy_x (dragStart s);
            deltaY = cy - xy_y (dragStart s)
        in (False, s\<lparr> panOffset := \<lparr> xy_x = deltaX * 0.05, xy_y = (- deltaY) * 0.05 \<rparr> \<rparr>))"

definition handleMouseUp :: "moodboard \<Rightarrow> bool \<times> moodboard" where
  "handleMouseUp s =
     (False, s\<lparr> isDragging := False, panOffset := \<lparr> xy_x = 0, xy_y = 0 \<rparr> \<rparr>)"

definition handleKeyDown :: "string \<Rightarrow> moodboard \<Rightarrow> bool \<times> moodboard" where
  "handleKeyDown k s =
     (let moveSpeed = 2 in
      case targetPosition s of (p0, p1, p2) \<Rightarrow>
        if k = ''ArrowUp'' \<or> k = ''w'' then
          (False, s\<lparr> targetPosition := (p0, p1 + moveSpeed, p2) \<rparr>)
        else if k = ''ArrowDown'' \<or> k = ''s'' then
          (False, s\<lparr> targetPosition := (p0, p1 - moveSpeed, p2) \<rparr>)
        else if k = ''ArrowLeft'' \<or> k = ''a'' then
          (False, s\<lparr> targetPosition := (p0 - moveSpeed, p1, p2) \<rparr>)
        else if k = ''ArrowRight'' \<or> k = ''d'' then
          (False, s\<lparr> targetPosition := (p0 + moveSpeed, p1, p2) \<rparr>)
        else if k = '' '' then
          (True, s\<lparr> targetPosition := (0, 0, 35), zoomLevel := 1 \<rparr>)
        else (False, s))"

text \<open>
  \<^verbatim>\<open>onError={(error) => { ...; setCanvasError(error); }}\<close>: the callback stores
  its argument as it is, truthy or not. The sources hand this callback to the canvas
  element and do not show when the rendering library calls it; the event
  \<open>CanvasOnError\<close> is one call of it. The \<open>webglcontextlost\<close> listener
  installed by \<open>onCreated\<close> stores a string literal and does call
  \<open>preventDefault\<close>.
\<close>

definition onError :: "js_value \<Rightarrow> moodboard \<Rightarrow> bool \<times> moodboard" where
  "onError error s = (False, s\<lparr> canvasError := error \<rparr>)"

definition onContextLost :: "moodboard \<Rightarrow> bool \<times> moodboard" where
  "onContextLost s = (True, s\<lparr> canvasError := StringValue ''WebGL context lost'' \<rparr>)"

text \<open>
  \<^verbatim>\<open>useFrame(() => { if (scroll) { setScrollProgress(scroll.offset); } });\<close>
\<close>

definition ScrollContent_frame :: "real option \<Rightarrow> moodboard \<Rightarrow> moodboard" where
  "ScrollContent_frame scroll s =
     (case scroll of None \<Rightarrow> s | Some off \<Rightarrow> s\<lparr> scrollProgress := off \<rparr>)"

fun dispatch :: "event \<Rightarrow> moodboard \<Rightarrow> bool \<times> moodboard" where
  "dispatch (Wheel dY) s = handleWheel dY s"
| "dispatch (MouseDown cx cy) s = handleMouseDown cx cy s"
| "dispatch (MouseMove cx cy) s = handleMouseMove cx cy s"
| "dispatch MouseUp s = handleMouseUp s"
| "dispatch (KeyDown k) s = handleKeyDown k s"
| "dispatch (CanvasOnError error) s = onError error s"
| "dispatch WebglContextLost s = onContextLost s"
| "dispatch (ScrollFrame scroll) s = (False, ScrollContent_frame scroll s)"

definition step :: "event \<Rightarrow> moodboard \<Rightarrow> moodboard" where
  "step e s = snd (dispatch e s)"

definition defaultPrevented :: "event \<Rightarrow> moodboard \<Rightarrow> bool" where
  "defaultPrevented e s = fst (dispatch e s)"

fun run :: "event list \<Rightarrow> moodboard \<Rightarrow> moodboard" where
  "run [] s = s"
| "run (e # es) s = run es (step e s)"

section \<open>The earlier draft\<close>

text \<open>
  The earlier draft of the component keeps a single state cell, \<open>zoomLevel\<close>, and
  listens to the wheel only.
  \<^verbatim>\<open>
  let newZoom = prevZoom - event.deltaY * 0.001;
  newZoom = Math.max(0.1, Math.min(newZoom, 5));
  \<close>
\<close>

record moodboard_draft =
  draft_zoomLevel :: real

definition initial_draft :: moodboard_draft where
  "initial_draft = \<lparr> draft_zoomLevel = 1 \<rparr>"

definition handleWheel_draft :: "real \<Rightarrow> moodboard_draft \<Rightarrow> bool \<times> moodboard_draft" where
  "handleWheel_draft dY s =
     (True,
      s\<lparr> draft_zoomLevel :=
           (let prevZoom = draft_zoomLevel s;
                newZoom = prevZoom - dY * 0.001
            in max 0.1 (min newZoom 5)) \<rparr>)"

fun run_draft :: "real list \<Rightarrow> moodboard_draft \<Rightarrow> moodboard_draft" where
  "run_draft [] s = s"
| "run_draft (dY # dYs) s = run_draft dYs (snd (handleWheel_draft dY s))"

section \<open>What the specification calls clamping\<close>

text \<open>
  The specification's wording, kept apart from the code's \<open>Math.max\<close>/\<open>Math.min\<close>
  nesting: a value below the range becomes the lower bound, a value above it the upper
  bound, and a value inside is kept.
\<close>

definition clamped :: "real \<Rightarrow> real \<Rightarrow> real \<Rightarrow> real" where
  "clamped lo hi v = (if v < lo then lo else if hi < v then hi else v)"

definition zoom_in_range :: "moodboard \<Rightarrow> bool" where
  "zoom_in_range s = (0.3 \<le> zoomLevel s \<and> zoomLevel s \<le> 8)"

definition draft_zoom_in_range :: "moodboard_draft \<Rightarrow> bool" where
  "draft_zoom_in_range s = (0.1 \<le> draft_zoomLevel s \<and> draft_zoomLevel s \<le> 5)"

text \<open>Only \<open>mousedown\<close> and \<open>mouseup\<close> write the drag flag and the drag origin.\<close>

fun keeps_drag :: "event \<Rightarrow> bool" where
  "keeps_drag (MouseDown cx cy) = False"
| "keeps_drag MouseUp = False"
| "keeps_drag e = True"

section \<open>What the root component renders\<close>






fun clears_error :: "event \<Rightarrow> bool" where
  "clears_error (CanvasOnError error) = (\<not> truthy error)"
| "clears_error e = False"



section \<open>The image plane (refined version)\<close>

record plane_props =
  url :: string
  position :: vec3
  rotation :: vec3
  scale :: vec3
  index :: nat
  scrollOffset :: real

text \<open>
  The three \<open>useState\<close> flags of one mounted instance of an image plane, all
  \<open>false\<close> at mount. They live as long as that instance is mounted: the root
  component declares \<open>ScrollContent\<close> inside its own body, so the planes below it are
  mounted afresh, from \<open>plane_initial\<close>, when the root renders again. Everything
  below follows one mounted instance.
\<close>

record plane_state =
  hovered :: bool
  clicked :: bool
  imageError :: bool

definition plane_initial :: plane_state where
  "plane_initial = \<lparr> hovered = False, clicked = False, imageError = False \<rparr>"

text \<open>The random parameters of the floating animation, drawn once per instance.\<close>

record float_offset =
  float_x :: real
  float_y :: real
  float_z :: real
  speed :: real
  amplitude :: real

text \<open>The fields of the scene object behind \<open>meshRef\<close> that the frame callback writes.\<close>

record mesh =
  mesh_position :: vec3
  mesh_scale :: vec3
  mesh_rotation :: vec3

datatype plane_event = PointerOver | PointerOut | PointerDown | PointerUp | LoadError

text \<open>\<open>hsl(h, s%, l%)\<close>\<close>

datatype color = HSL nat nat nat

datatype plane_view =
    MeshElement (fill: color) (opacity: real) (listeners: "plane_event list")
  | ImageElement (source: string) (opacity: real) (listeners: "plane_event list")

definition ImagePlane :: "plane_props \<Rightarrow> plane_state \<Rightarrow> plane_view" where
  "ImagePlane p st =
     (if imageError st then
        MeshElement (HSL (index p * 30) 70 60) (if hovered st then 1 else 0.8)
          [PointerOver, PointerOut, PointerDown, PointerUp]
      else
        ImageElement (url p) (if hovered st then 1 else 0.9)
          [PointerOver, PointerOut, PointerDown, PointerUp, LoadError])"

fun plane_handler :: "plane_event \<Rightarrow> plane_state \<Rightarrow> plane_state" where
  "plane_handler PointerOver st = st\<lparr> hovered := True \<rparr>"
| "plane_handler PointerOut st = st\<lparr> hovered := False \<rparr>"
| "plane_handler PointerDown st = st\<lparr> clicked := True \<rparr>"
| "plane_handler PointerUp st = st\<lparr> clicked := False \<rparr>"
| "plane_handler LoadError st = st\<lparr> imageError := True \<rparr>"

text \<open>An event reaches its handler only if the element rendered at that moment has one.\<close>

definition plane_step :: "plane_props \<Rightarrow> plane_event \<Rightarrow> plane_state \<Rightarrow> plane_state" where
  "plane_step p e st =
     (if e \<in> set (listeners (ImagePlane p st)) then plane_handler e st else st)"

fun plane_run :: "plane_props \<Rightarrow> plane_event list \<Rightarrow> plane_state \<Rightarrow> plane_state" where
  "plane_run p [] st = st"
| "plane_run p (e # es) st = plane_run p es (plane_step p e st)"

text \<open>
  The pointer flags as they evolve when every pointer event reaches its handler and load
  errors are left out of the picture: the behaviour of a plane whose image loaded.
\<close>

fun pointer_flags :: "plane_event list \<Rightarrow> bool \<times> bool \<Rightarrow> bool \<times> bool" where
  "pointer_flags [] hc = hc"
| "pointer_flags (PointerOver # es) (h, c) = pointer_flags es (True, c)"
| "pointer_flags (PointerOut # es) (h, c) = pointer_flags es (False, c)"
| "pointer_flags (PointerDown # es) (h, c) = pointer_flags es (h, True)"
| "pointer_flags (PointerUp # es) (h, c) = pointer_flags es (h, False)"
| "pointer_flags (LoadError # es) (h, c) = pointer_flags es (h, c)"

text \<open>
  \<^verbatim>\<open>const targetScale = hovered ? 1.1 : clicked ? 0.95 : 1;\<close>
\<close>

definition targetScale :: "bool \<Rightarrow> bool \<Rightarrow> real" where
  "targetScale hov clk = (if hov then 1.1 else if clk then 0.95 else 1)"

text \<open>
  Modelled from the spec: \<open>Vector3.lerp\<close> belongs to the scene-graph library and is not
  part of the sources; the specification describes the call as linear interpolation
  toward the target at a fixed blend factor, which on each of the three components is
  the interpolation \<open>lerp\<close> of the component itself.
\<close>

definition Vector3_lerp :: "vec3 \<Rightarrow> vec3 \<Rightarrow> real \<Rightarrow> vec3" where
  "Vector3_lerp this v alpha =
     (case this of (x, y, z) \<Rightarrow>
      case v of (vx, vy, vz) \<Rightarrow> (lerp x vx alpha, lerp y vy alpha, lerp z vz alpha))"

text \<open>
  The frame callback of the image plane, at elapsed time \<open>time\<close>; it does nothing while
  \<open>meshRef.current\<close> is unset.
\<close>

definition ImagePlane_frame ::
  "plane_props \<Rightarrow> float_offset \<Rightarrow> plane_state \<Rightarrow> real \<Rightarrow> mesh option \<Rightarrow> mesh option" where
  "ImagePlane_frame p floatOffset st time current =
     (case current of
        None \<Rightarrow> None
      | Some m \<Rightarrow>
         (case position p of (p0, p1, p2) \<Rightarrow>
          case scale p of (s0, s1, s2) \<Rightarrow>
          case rotation p of (r0, r1, r2) \<Rightarrow>
          case mesh_rotation m of (m0, m1, m2) \<Rightarrow>
            let x' = p0 + sin (time * speed floatOffset + real (index p))
                          * amplitude floatOffset * float_x floatOffset;
                y' = p1 + cos (time * speed floatOffset * 0.7 + real (index p))
                          * amplitude floatOffset * float_y floatOffset;
                z' = p2 + scrollOffset p * 0.1 * (real (index p mod 3) - 1);
                ts = targetScale (hovered st) (clicked st);
                scale' = Vector3_lerp (mesh_scale m) (s0 * ts, s1 * ts, s2) 0.1;
                rz' = r2 + sin (time * 0.3 + real (index p)) * 0.02
            in Some (m\<lparr> mesh_position := (x', y', z'),
                        mesh_scale := scale',
                        mesh_rotation := (m0, m1, rz') \<rparr>)))"

text \<open>Consecutive frames at the given times, with the props and flags unchanged.\<close>

fun ImagePlane_frames ::
  "plane_props \<Rightarrow> float_offset \<Rightarrow> plane_state \<Rightarrow> real list \<Rightarrow> mesh option \<Rightarrow> mesh option" where
  "ImagePlane_frames p floatOffset st [] current = current"
| "ImagePlane_frames p floatOffset st (time # later) current =
     ImagePlane_frames p floatOffset st later (ImagePlane_frame p floatOffset st time current)"

section \<open>The camera controller\<close>

record camera =
  fov :: real
  camera_position :: vec3

text \<open>
  The controller's own state: the camera it drives and the array kept in
  \<open>currentPosition\<close>, which lives as long as the controller does.
  \<^verbatim>\<open>camera={{ position: [0, 0, 35], fov: 75 }}\<close> and
  \<^verbatim>\<open>const currentPosition = useRef([0, 0, 35]);\<close>
\<close>

record camera_controls =
  the_camera :: camera
  currentPosition :: vec3

definition camera_initial :: camera where
  "camera_initial = \<lparr> fov = 75, camera_position = (0, 0, 35) \<rparr>"

definition controls_initial :: camera_controls where
  "controls_initial = \<lparr> the_camera = camera_initial, currentPosition = (0, 0, 35) \<rparr>"

definition CameraControls_frame ::
  "real \<Rightarrow> xy \<Rightarrow> vec3 \<Rightarrow> camera_controls \<Rightarrow> camera_controls" where
  "CameraControls_frame zoom pan target cc =
     (case currentPosition cc of (c0, c1, c2) \<Rightarrow>
      case target of (t0, t1, t2) \<Rightarrow>
        let fov' = lerp (fov (the_camera cc)) (75 / zoom) 0.1;
            c0' = lerp c0 (t0 + xy_x pan) 0.1;
            c1' = lerp c1 (t1 + xy_y pan) 0.1;
            c2' = lerp c2 t2 0.1
        in \<lparr> the_camera = \<lparr> fov = fov', camera_position = (c0', c1', c2') \<rparr>,
             currentPosition = (c0', c1', c2') \<rparr>)"

text \<open>
  The root component passes its own state cells as the controller's props:
  \<^verbatim>\<open><CameraControls zoomLevel={zoomLevel} panOffset={panOffset} targetPosition={targetPosition} />\<close>
\<close>

definition camera_frame :: "moodboard \<Rightarrow> camera_controls \<Rightarrow> camera_controls" where
  "camera_frame s cc = CameraControls_frame (zoomLevel s) (panOffset s) (targetPosition s) cc"

text \<open>
  The controller of the earlier draft:
  \<^verbatim>\<open>useFrame(() => { camera.fov = 75 / zoomLevel; camera.updateProjectionMatrix(); });\<close>
\<close>

definition CameraControls_frame_draft :: "real \<Rightarrow> camera \<Rightarrow> camera" where
  "CameraControls_frame_draft zoom cam = cam\<lparr> fov := 75 / zoom \<rparr>"

definition camera_frame_draft :: "moodboard_draft \<Rightarrow> camera \<Rightarrow> camera" where
  "camera_frame_draft d cam = CameraControls_frame_draft (draft_zoomLevel d) cam"

section \<open>Proofs\<close>

section \<open>Wheel zoom\<close>

lemma handleWheel_zoom:
  "zoomLevel (snd (handleWheel dY s)) = max 0.3 (min (zoomLevel s - dY * 0.002) 8)"
  by (simp add: handleWheel_def Let_def)

lemma handleWheel_draft_zoom:
  "draft_zoomLevel (snd (handleWheel_draft dY s)) =
     max 0.1 (min (draft_zoomLevel s - dY * 0.001) 5)"
  by (simp add: handleWheel_draft_def Let_def)

lemma max_min_clamped:
  "lo \<le> hi \<Longrightarrow> max lo (min v hi) = clamped lo hi v"
  by (auto simp: clamped_def max_def min_def)

text \<open>
  C3. A wheel event with vertical delta \<open>dY\<close> replaces the zoom level by the previous
  level minus \<open>dY\<close> times the zoom speed, clamped: speed 0.002 and range [0.3, 8] in the
  refined version, speed 0.001 and range [0.1, 5] in the earlier draft. In both versions
  the handler suppresses the event's default action, and the refined handler leaves
  every other state cell as it was.
\<close>

theorem wheel_adjusts_zoom:
  "step (Wheel dY) s = s\<lparr> zoomLevel := clamped 0.3 8 (zoomLevel s - dY * 0.002) \<rparr>
   \<and> defaultPrevented (Wheel dY) s
   \<and> snd (handleWheel_draft dY d) =
       d\<lparr> draft_zoomLevel := clamped 0.1 5 (draft_zoomLevel d - dY * 0.001) \<rparr>
   \<and> fst (handleWheel_draft dY d)"
proof -
  have r: "max 0.3 (min (zoomLevel s - dY * 0.002) 8) = clamped 0.3 8 (zoomLevel s - dY * 0.002)"
    by (rule max_min_clamped) simp
  have e: "max 0.1 (min (draft_zoomLevel d - dY * 0.001) 5)
             = clamped 0.1 5 (draft_zoomLevel d - dY * 0.001)"
    by (rule max_min_clamped) simp
  have "step (Wheel dY) s = s\<lparr> zoomLevel := clamped 0.3 8 (zoomLevel s - dY * 0.002) \<rparr>"
    using r by (simp add: step_def handleWheel_def Let_def)
  moreover have "defaultPrevented (Wheel dY) s"
    by (simp add: defaultPrevented_def handleWheel_def)
  moreover have "snd (handleWheel_draft dY d) =
       d\<lparr> draft_zoomLevel := clamped 0.1 5 (draft_zoomLevel d - dY * 0.001) \<rparr>"
    using e by (simp add: handleWheel_draft_def Let_def)
  moreover have "fst (handleWheel_draft dY d)"
    by (simp add: handleWheel_draft_def)
  ultimately show ?thesis by simp
qed

section \<open>Space resets the view\<close>

text \<open>
  C4. Whatever the interaction state was, a key event whose key is the space character
  sets the target camera position to (0, 0, 35) and the zoom level to 1, and suppresses
  the key's default action; no other state cell changes.
\<close>

theorem space_resets_view:
  "step (KeyDown '' '') s = s\<lparr> targetPosition := (0, 0, 35), zoomLevel := 1 \<rparr>
   \<and> targetPosition (step (KeyDown '' '') s) = (0, 0, 35)
   \<and> zoomLevel (step (KeyDown '' '') s) = 1
   \<and> defaultPrevented (KeyDown '' '') s"
  by (simp add: step_def defaultPrevented_def handleKeyDown_def Let_def split: prod.split)

section \<open>The zoom level stays in its range\<close>

lemma handleKeyDown_zoom:
  "zoomLevel (snd (handleKeyDown k s)) = (if k = '' '' then 1 else zoomLevel s)"
  by (simp add: handleKeyDown_def Let_def split: prod.split)

lemma step_zoom_in_range:
  "zoom_in_range s \<Longrightarrow> zoom_in_range (step e s)"
proof (cases e)
  case (Wheel dY)
  then show ?thesis
    by (simp add: zoom_in_range_def step_def handleWheel_zoom)
next
  case (KeyDown k)
  assume "zoom_in_range s"
  with KeyDown show ?thesis
    by (simp add: zoom_in_range_def step_def handleKeyDown_zoom)
next
  case (ScrollFrame scroll)
  assume "zoom_in_range s"
  with ScrollFrame show ?thesis
    by (simp add: zoom_in_range_def step_def ScrollContent_frame_def split: option.split)
qed (simp_all add: zoom_in_range_def step_def handleMouseDown_def handleMouseMove_def
       handleMouseUp_def onError_def onContextLost_def Let_def)

lemma run_zoom_in_range:
  "zoom_in_range s \<Longrightarrow> zoom_in_range (run es s)"
  by (induction es arbitrary: s) (simp_all add: step_zoom_in_range)

lemma initial_zoom_in_range: "zoom_in_range initial"
  by (simp add: zoom_in_range_def initial_def)

lemma run_draft_zoom_in_range:
  "draft_zoom_in_range s \<Longrightarrow> draft_zoom_in_range (run_draft dYs s)"
proof (induction dYs arbitrary: s)
  case Nil
  then show ?case by simp
next
  case (Cons dY dYs)
  have "draft_zoom_in_range (snd (handleWheel_draft dY s))"
    by (simp add: draft_zoom_in_range_def handleWheel_draft_zoom)
  then show ?case by (simp add: Cons.IH)
qed

text \<open>
  C2. Starting from the default zoom level 1, after every event of any sequence of
  events (wheel events of any delta, key events of any key, and every other event the
  component handles), the zoom level of the refined version lies in [0.3, 8]; after
  every wheel event of any sequence, the zoom level of the earlier draft lies in
  [0.1, 5]. The state after the first \<open>n\<close> events is \<open>run (take n es) initial\<close>.
\<close>

theorem zoom_level_always_clamped:
  "zoomLevel initial = 1
   \<and> 0.3 \<le> zoomLevel (run (take n es) initial)
   \<and> zoomLevel (run (take n es) initial) \<le> 8
   \<and> draft_zoomLevel initial_draft = 1
   \<and> 0.1 \<le> draft_zoomLevel (run_draft (take m dYs) initial_draft)
   \<and> draft_zoomLevel (run_draft (take m dYs) initial_draft) \<le> 5"
proof -
  have "zoom_in_range (run (take n es) initial)"
    by (rule run_zoom_in_range) (rule initial_zoom_in_range)
  moreover have "draft_zoom_in_range (run_draft (take m dYs) initial_draft)"
    by (rule run_draft_zoom_in_range) (simp add: draft_zoom_in_range_def initial_draft_def)
  ultimately show ?thesis
    by (simp add: zoom_in_range_def draft_zoom_in_range_def initial_def initial_draft_def)
qed

section \<open>Dragging pans relative to the point of the pointer-down\<close>

lemma run_append: "run (es @ fs) s = run fs (run es s)"
  by (induction es arbitrary: s) simp_all

lemma step_keeps_drag:
  "keeps_drag e \<Longrightarrow>
     isDragging (step e s) = isDragging s \<and> dragStart (step e s) = dragStart s"
  by (cases e)
     (simp_all add: step_def handleWheel_def handleMouseMove_def handleKeyDown_def
        onError_def onContextLost_def ScrollContent_frame_def Let_def
        split: prod.split option.split)

lemma run_keeps_drag:
  "list_all keeps_drag es \<Longrightarrow>
     isDragging (run es s) = isDragging s \<and> dragStart (run es s) = dragStart s"
  by (induction es arbitrary: s) (simp_all add: step_keeps_drag)

lemma move_while_dragging:
  assumes "isDragging s"
  shows "step (MouseMove qx qy) s =
           s\<lparr> panOffset := \<lparr> xy_x = (qx - xy_x (dragStart s)) * 0.05,
                             xy_y = - (qy - xy_y (dragStart s)) * 0.05 \<rparr> \<rparr>"
  unfolding step_def handleMouseMove_def Let_def dispatch.simps
  using assms by simp

text \<open>
  C1. After a pointer-down at P = (px, py), any number of further events that are neither
  a pointer-down nor a pointer-up (earlier pointer-moves among them), and a pointer-move
  to Q = (qx, qy), the pan offset is ((qx - px) * 0.05, - (qy - py) * 0.05): the drag
  origin is still P, so the offset is relative to the point of the pointer-down and not
  to the previous move. A pointer-up then sets the pan offset to (0, 0) at once and ends
  the drag.
\<close>

theorem drag_sets_pan_offset:
  assumes "list_all keeps_drag es"
  shows "panOffset (run (MouseDown px py # es @ [MouseMove qx qy]) s) =
           \<lparr> xy_x = (qx - px) * 0.05, xy_y = - (qy - py) * 0.05 \<rparr>
         \<and> dragStart (run (MouseDown px py # es @ [MouseMove qx qy]) s) =
           \<lparr> xy_x = px, xy_y = py \<rparr>
         \<and> isDragging (run (MouseDown px py # es @ [MouseMove qx qy]) s)
         \<and> panOffset (run (MouseDown px py # es @ [MouseMove qx qy, MouseUp]) s) =
           \<lparr> xy_x = 0, xy_y = 0 \<rparr>
         \<and> \<not> isDragging (run (MouseDown px py # es @ [MouseMove qx qy, MouseUp]) s)"
proof -
  define s1 where "s1 = run es (step (MouseDown px py) s)"
  define s2 where "s2 = step (MouseMove qx qy) s1"
  have down: "isDragging (step (MouseDown px py) s)
              \<and> dragStart (step (MouseDown px py) s) = \<lparr> xy_x = px, xy_y = py \<rparr>"
    by (simp add: step_def handleMouseDown_def)
  have d1: "isDragging s1" and o1: "dragStart s1 = \<lparr> xy_x = px, xy_y = py \<rparr>"
    using run_keeps_drag [OF assms, of "step (MouseDown px py) s"] down
    by (simp_all add: s1_def)
  have m: "s2 = s1\<lparr> panOffset := \<lparr> xy_x = (qx - px) * 0.05, xy_y = - (qy - py) * 0.05 \<rparr> \<rparr>"
    using move_while_dragging [OF d1, of qx qy] o1 by (simp add: s2_def)
  have r2: "run (MouseDown px py # es @ [MouseMove qx qy]) s = s2"
    by (simp add: run_append s1_def s2_def)
  have r3: "run (MouseDown px py # es @ [MouseMove qx qy, MouseUp]) s = step MouseUp s2"
    by (simp add: run_append s1_def s2_def)
  have up: "panOffset (step MouseUp s2) = \<lparr> xy_x = 0, xy_y = 0 \<rparr>
            \<and> \<not> isDragging (step MouseUp s2)"
    by (simp add: step_def handleMouseUp_def)
  show ?thesis
    unfolding r2 r3 using m d1 o1 up by simp
qed

theorem drag_sets_pan_offset_witness:
  "list_all keeps_drag [MouseMove 30 40, Wheel 100, KeyDown ''w'']
   \<and> panOffset (run (MouseDown 10 20 #
        [MouseMove 30 40, Wheel 100, KeyDown ''w''] @ [MouseMove 110 60]) initial) =
        \<lparr> xy_x = 5, xy_y = - 2 \<rparr>
   \<and> panOffset (run (MouseDown 10 20 #
        [MouseMove 30 40, Wheel 100, KeyDown ''w''] @ [MouseMove 110 60, MouseUp]) initial) =
        \<lparr> xy_x = 0, xy_y = 0 \<rparr>"
proof -
  have h: "list_all keeps_drag [MouseMove 30 40, Wheel 100, KeyDown ''w'']"
    by simp
  show ?thesis
    using h drag_sets_pan_offset [OF h, of 10 20 110 60 initial] by simp
qed

section \<open>Failure of the rendering surface\<close>



lemma step_clears: "clears_error e \<Longrightarrow> \<not> truthy (canvasError (step e s))"
  by (cases e) (simp_all add: step_def onError_def)












section \<open>Easing of the displayed scale\<close>

lemma lerp_gap: "lerp a b 0.1 - b = 0.9 * (a - b)"
  unfolding lerp_def by (simp add: field_simps)

lemma lerp_no_snap: "a \<noteq> b \<Longrightarrow> lerp a b 0.1 \<noteq> b"
proof
  assume ne: "a \<noteq> b" and eq: "lerp a b 0.1 = b"
  have "0.9 * (a - b) = lerp a b 0.1 - b" by (rule lerp_gap [symmetric])
  also have "\<dots> = 0" by (simp only: eq diff_self)
  finally show False using ne by simp
qed

lemma lerp_closed_form: "lerp (b + c) b 0.1 = b + 0.9 * c"
  unfolding lerp_def by (simp add: field_simps)

lemma frame_scale:
  assumes "scale p = (s0, s1, s2)" and "mesh_scale m = (x, y, z)"
  shows "map_option mesh_scale (ImagePlane_frame p fo st time (Some m)) =
           Some (lerp x (s0 * targetScale (hovered st) (clicked st)) 0.1,
                 lerp y (s1 * targetScale (hovered st) (clicked st)) 0.1,
                 lerp z s2 0.1)"
  using assms
  by (simp add: ImagePlane_frame_def Vector3_lerp_def Let_def split: prod.split)

lemma frame_keeps_mesh:
  "ImagePlane_frame p fo st time (Some m) \<noteq> None"
  by (simp add: ImagePlane_frame_def Let_def split: prod.split)

lemma frames_scale:
  assumes "scale p = (s0, s1, s2)"
  shows "mesh_scale m = (s0 * targetScale (hovered st) (clicked st) + a, 
                         s1 * targetScale (hovered st) (clicked st) + b, s2 + c) \<Longrightarrow>
         map_option mesh_scale (ImagePlane_frames p fo st ts (Some m)) =
           Some (s0 * targetScale (hovered st) (clicked st) + 0.9 ^ length ts * a,
                 s1 * targetScale (hovered st) (clicked st) + 0.9 ^ length ts * b,
                 s2 + 0.9 ^ length ts * c)"
proof (induction ts arbitrary: m a b c)
  case Nil
  then show ?case by simp
next
  case (Cons t ts)
  obtain m' where m': "ImagePlane_frame p fo st t (Some m) = Some m'"
    using frame_keeps_mesh [of p fo st t m] by auto
  have "map_option mesh_scale (ImagePlane_frame p fo st t (Some m)) =
          Some (s0 * targetScale (hovered st) (clicked st) + 0.9 * a,
                s1 * targetScale (hovered st) (clicked st) + 0.9 * b,
                s2 + 0.9 * c)"
    using frame_scale [OF assms Cons.prems, of fo st t] by (simp add: lerp_closed_form)
  with m' have sc: "mesh_scale m' =
          (s0 * targetScale (hovered st) (clicked st) + 0.9 * a,
           s1 * targetScale (hovered st) (clicked st) + 0.9 * b,
           s2 + 0.9 * c)"
    by auto
  have pw: "\<And>v::real. 0.9 ^ length ts * (0.9 * v) = 0.9 ^ length (t # ts) * v"
    by simp
  have "map_option mesh_scale (ImagePlane_frames p fo st ts (Some m')) =
          Some (s0 * targetScale (hovered st) (clicked st) + 0.9 ^ length (t # ts) * a,
                s1 * targetScale (hovered st) (clicked st) + 0.9 ^ length (t # ts) * b,
                s2 + 0.9 ^ length (t # ts) * c)"
    using Cons.IH [OF sc] unfolding pw .
  then show ?case
    by (simp only: ImagePlane_frames.simps m')
qed

text \<open>
  C8. Let the plane's nominal scale be (s0, s1, s2) and its displayed scale (x, y, z).
  One frame replaces the displayed scale by its interpolation at blend factor 0.1 toward
  the target: nominal width and height times 1.1 when hovered, times 0.95 while pressed
  (and not hovered), times 1 otherwise, and the nominal depth. Each frame shrinks the
  distance of width and height to their targets to exactly nine tenths, so a value off
  its target is still off it after the frame, and after n frames with unchanged flags
  the distance is 0.9 to the power n of what it was: first-order smoothing, no snap.
\<close>

theorem scale_eases_toward_target:
  assumes "scale p = (s0, s1, s2)" and "mesh_scale m = (x, y, z)"
    and "f = (if hovered st then 1.1 else if clicked st then 0.95 else 1)"
  shows "map_option mesh_scale (ImagePlane_frame p fo st time (Some m)) =
           Some (lerp x (s0 * f) 0.1, lerp y (s1 * f) 0.1, lerp z s2 0.1)
         \<and> lerp x (s0 * f) 0.1 - s0 * f = 0.9 * (x - s0 * f)
         \<and> lerp y (s1 * f) 0.1 - s1 * f = 0.9 * (y - s1 * f)
         \<and> (x \<noteq> s0 * f \<longrightarrow> lerp x (s0 * f) 0.1 \<noteq> s0 * f)
         \<and> (y \<noteq> s1 * f \<longrightarrow> lerp y (s1 * f) 0.1 \<noteq> s1 * f)
         \<and> map_option mesh_scale (ImagePlane_frames p fo st ts (Some m)) =
             Some (s0 * f + 0.9 ^ length ts * (x - s0 * f),
                   s1 * f + 0.9 ^ length ts * (y - s1 * f),
                   s2 + 0.9 ^ length ts * (z - s2))"
proof -
  have f: "f = targetScale (hovered st) (clicked st)"
    using assms(3) by (simp add: targetScale_def)
  have one: "map_option mesh_scale (ImagePlane_frame p fo st time (Some m)) =
           Some (lerp x (s0 * f) 0.1, lerp y (s1 * f) 0.1, lerp z s2 0.1)"
    unfolding f by (rule frame_scale [OF assms(1) assms(2)])
  have "mesh_scale m = (s0 * targetScale (hovered st) (clicked st) + (x - s0 * f),
                        s1 * targetScale (hovered st) (clicked st) + (y - s1 * f),
                        s2 + (z - s2))"
    using assms(2) f by simp
  from frames_scale [OF assms(1) this, of fo ts]
  have many: "map_option mesh_scale (ImagePlane_frames p fo st ts (Some m)) =
             Some (s0 * f + 0.9 ^ length ts * (x - s0 * f),
                   s1 * f + 0.9 ^ length ts * (y - s1 * f),
                   s2 + 0.9 ^ length ts * (z - s2))"
    unfolding f .
  show ?thesis
    using one many lerp_gap [of x "s0 * f"] lerp_gap [of y "s1 * f"]
      lerp_no_snap [of x "s0 * f"] lerp_no_snap [of y "s1 * f"]
    by blast
qed

theorem scale_eases_toward_target_witness:
  "scale \<lparr> url = ''a'', position = (0, 0, 0), rotation = (0, 0, 0), scale = (4, 3, 1),
           index = 2, scrollOffset = 0 \<rparr> = (4, 3, 1)
   \<and> mesh_scale \<lparr> mesh_position = (0, 0, 0), mesh_scale = (4, 3, 1),
                   mesh_rotation = (0, 0, 0) \<rparr> = (4, 3, 1)
   \<and> map_option mesh_scale
        (ImagePlane_frame
           \<lparr> url = ''a'', position = (0, 0, 0), rotation = (0, 0, 0), scale = (4, 3, 1),
             index = 2, scrollOffset = 0 \<rparr>
           \<lparr> float_x = 0.1, float_y = 0.1, float_z = 0.1, speed = 1, amplitude = 0.5 \<rparr>
           \<lparr> hovered = True, clicked = False, imageError = False \<rparr> 0
           (Some \<lparr> mesh_position = (0, 0, 0), mesh_scale = (4, 3, 1),
                   mesh_rotation = (0, 0, 0) \<rparr>)) =
       Some (4.04, 3.03, 1)
   \<and> (4::real) \<noteq> 4 * 1.1
   \<and> lerp 4 (4 * 1.1) 0.1 \<noteq> 4 * 1.1"
proof -
  let ?p = "\<lparr> url = ''a'', position = (0, 0, 0), rotation = (0, 0, 0), scale = (4, 3, 1),
             index = 2, scrollOffset = 0 \<rparr>"
  let ?m = "\<lparr> mesh_position = (0, 0, 0), mesh_scale = (4, 3, 1), mesh_rotation = (0, 0, 0) \<rparr>"
  let ?st = "\<lparr> hovered = True, clicked = False, imageError = False \<rparr>"
  have h1: "scale ?p = (4, 3, 1)" by simp
  have h2: "mesh_scale ?m = (4, 3, 1)" by simp
  have h3: "(1.1::real) = (if hovered ?st then 1.1 else if clicked ?st then 0.95 else 1)"
    by simp
  show ?thesis
    using h1 h2 scale_eases_toward_target [OF h1 h2 h3, of
        "\<lparr> float_x = 0.1, float_y = 0.1, float_z = 0.1, speed = 1, amplitude = 0.5 \<rparr>" 0 "[]"]
    by (simp add: lerp_def)
qed

text \<open>
  C10. While a plane is pressed, hovering decides the target of the scale easing: hovered
  and pressed at once, the frame eases width and height toward the nominal value times
  1.1, as if it were not pressed; pressed and not hovered, toward the nominal value
  times 0.95.
\<close>

theorem hover_wins_over_press:
  assumes "scale p = (s0, s1, s2)" and "mesh_scale m = (x, y, z)" and "clicked st"
  shows "targetScale True True = 1.1 \<and> targetScale False True = 0.95
         \<and> (hovered st \<longrightarrow>
              map_option mesh_scale (ImagePlane_frame p fo st time (Some m)) =
                Some (lerp x (s0 * 1.1) 0.1, lerp y (s1 * 1.1) 0.1, lerp z s2 0.1))
         \<and> (\<not> hovered st \<longrightarrow>
              map_option mesh_scale (ImagePlane_frame p fo st time (Some m)) =
                Some (lerp x (s0 * 0.95) 0.1, lerp y (s1 * 0.95) 0.1, lerp z s2 0.1))"
proof -
  have vals: "targetScale True True = 1.1 \<and> targetScale False True = 0.95"
    by (simp add: targetScale_def)
  note fs = frame_scale [OF assms(1) assms(2), of fo st time]
  have hov: "map_option mesh_scale (ImagePlane_frame p fo st time (Some m)) =
               Some (lerp x (s0 * 1.1) 0.1, lerp y (s1 * 1.1) 0.1, lerp z s2 0.1)"
    if h: "hovered st"
  proof -
    have "targetScale (hovered st) (clicked st) = 1.1"
      using h by (simp add: targetScale_def)
    with fs show ?thesis by (simp only:)
  qed
  have press: "map_option mesh_scale (ImagePlane_frame p fo st time (Some m)) =
               Some (lerp x (s0 * 0.95) 0.1, lerp y (s1 * 0.95) 0.1, lerp z s2 0.1)"
    if h: "\<not> hovered st"
  proof -
    have "targetScale (hovered st) (clicked st) = 0.95"
      using h assms(3) by (simp add: targetScale_def)
    with fs show ?thesis by (simp only:)
  qed
  from vals hov press show ?thesis by blast
qed

theorem hover_wins_over_press_witness:
  "clicked \<lparr> hovered = True, clicked = True, imageError = False \<rparr>
   \<and> hovered \<lparr> hovered = True, clicked = True, imageError = False \<rparr>
   \<and> map_option mesh_scale
        (ImagePlane_frame
           \<lparr> url = ''a'', position = (0, 0, 0), rotation = (0, 0, 0), scale = (4, 3, 1),
             index = 2, scrollOffset = 0 \<rparr>
           \<lparr> float_x = 0.1, float_y = 0.1, float_z = 0.1, speed = 1, amplitude = 0.5 \<rparr>
           \<lparr> hovered = True, clicked = True, imageError = False \<rparr> 0
           (Some \<lparr> mesh_position = (0, 0, 0), mesh_scale = (4, 3, 1),
                   mesh_rotation = (0, 0, 0) \<rparr>)) =
       Some (4.04, 3.03, 1)
   \<and> map_option mesh_scale
        (ImagePlane_frame
           \<lparr> url = ''a'', position = (0, 0, 0), rotation = (0, 0, 0), scale = (4, 3, 1),
             index = 2, scrollOffset = 0 \<rparr>
           \<lparr> float_x = 0.1, float_y = 0.1, float_z = 0.1, speed = 1, amplitude = 0.5 \<rparr>
           \<lparr> hovered = False, clicked = True, imageError = False \<rparr> 0
           (Some \<lparr> mesh_position = (0, 0, 0), mesh_scale = (4, 3, 1),
                   mesh_rotation = (0, 0, 0) \<rparr>)) =
       Some (3.98, 2.985, 1)"
proof -
  let ?p = "\<lparr> url = ''a'', position = (0, 0, 0), rotation = (0, 0, 0), scale = (4, 3, 1),
             index = 2, scrollOffset = 0 \<rparr>"
  let ?m = "\<lparr> mesh_position = (0, 0, 0), mesh_scale = (4, 3, 1), mesh_rotation = (0, 0, 0) \<rparr>"
  let ?fo = "\<lparr> float_x = 0.1, float_y = 0.1, float_z = 0.1, speed = 1, amplitude = 0.5 \<rparr>"
  let ?both = "\<lparr> hovered = True, clicked = True, imageError = False \<rparr>"
  let ?press = "\<lparr> hovered = False, clicked = True, imageError = False \<rparr>"
  have h1: "scale ?p = (4, 3, 1)" by simp
  have h2: "mesh_scale ?m = (4, 3, 1)" by simp
  have h3: "clicked ?both" by simp
  have h4: "clicked ?press" by simp
  show ?thesis
    using hover_wins_over_press [OF h1 h2 h3, of ?fo 0]
      hover_wins_over_press [OF h1 h2 h4, of ?fo 0]
    by (simp add: lerp_def)
qed

section \<open>An image that fails to load\<close>

lemma plane_step_error_stays: "imageError st \<Longrightarrow> imageError (plane_step p e st)"
  by (cases e) (simp_all add: plane_step_def)

lemma plane_run_error_stays: "imageError st \<Longrightarrow> imageError (plane_run p es st)"
  by (induction es arbitrary: st) (simp_all add: plane_step_error_stays)

lemma plane_step_LoadError: "imageError (plane_step p LoadError st)"
  by (simp add: plane_step_def ImagePlane_def)

lemma plane_step_flags:
  "(hovered (plane_step p e st), clicked (plane_step p e st)) =
     pointer_flags [e] (hovered st, clicked st)"
  by (cases e) (simp_all add: plane_step_def ImagePlane_def)

lemma pointer_flags_Cons:
  "pointer_flags (e # es) hc = pointer_flags es (pointer_flags [e] hc)"
  by (cases e; cases hc) simp_all

lemma plane_run_flags:
  "(hovered (plane_run p es st), clicked (plane_run p es st)) =
     pointer_flags es (hovered st, clicked st)"
proof (induction es arbitrary: st)
  case Nil
  show ?case by simp
next
  case (Cons e es)
  have "(hovered (plane_run p (e # es) st), clicked (plane_run p (e # es) st)) =
          pointer_flags es (hovered (plane_step p e st), clicked (plane_step p e st))"
    by (simp add: Cons.IH)
  also have "\<dots> = pointer_flags es (pointer_flags [e] (hovered st, clicked st))"
    by (simp only: plane_step_flags)
  also have "\<dots> = pointer_flags (e # es) (hovered st, clicked st)"
    by (rule pointer_flags_Cons [symmetric])
  finally show ?case .
qed

text \<open>
  Against C5 as it stands: the fallback does not keep the image's opacity. At rest (not
  hovered) the image is drawn at opacity 0.9 and, once the load has failed, the
  rectangle at 0.8; and a press changes the opacity of neither, so there is no click
  feedback in the opacity to preserve.
\<close>

theorem fallback_changes_resting_opacity:
  "opacity (ImagePlane
      \<lparr> url = ''a'', position = (0, 0, 0), rotation = (0, 0, 0), scale = (4, 3, 1),
        index = 2, scrollOffset = 0 \<rparr> plane_initial) = 0.9
   \<and> opacity (ImagePlane
      \<lparr> url = ''a'', position = (0, 0, 0), rotation = (0, 0, 0), scale = (4, 3, 1),
        index = 2, scrollOffset = 0 \<rparr>
      (plane_step
         \<lparr> url = ''a'', position = (0, 0, 0), rotation = (0, 0, 0), scale = (4, 3, 1),
           index = 2, scrollOffset = 0 \<rparr> LoadError plane_initial)) = 0.8
   \<and> opacity (ImagePlane
      \<lparr> url = ''a'', position = (0, 0, 0), rotation = (0, 0, 0), scale = (4, 3, 1),
        index = 2, scrollOffset = 0 \<rparr>
      (plane_step
         \<lparr> url = ''a'', position = (0, 0, 0), rotation = (0, 0, 0), scale = (4, 3, 1),
           index = 2, scrollOffset = 0 \<rparr> PointerDown plane_initial)) = 0.9
   \<and> opacity (ImagePlane
      \<lparr> url = ''a'', position = (0, 0, 0), rotation = (0, 0, 0), scale = (4, 3, 1),
        index = 2, scrollOffset = 0 \<rparr>
      (plane_run
         \<lparr> url = ''a'', position = (0, 0, 0), rotation = (0, 0, 0), scale = (4, 3, 1),
           index = 2, scrollOffset = 0 \<rparr> [LoadError, PointerDown] plane_initial)) = 0.8"
  by (simp add: ImagePlane_def plane_step_def plane_initial_def)

text \<open>
  C5, as amended. Once the load-error callback of a mounted image plane has run, then
  after any further events on that instance the error flag is still set and the plane
  renders the flat rectangle: its colour is \<open>hsl(index * 30, 70%, 60%)\<close>, a function of
  the index alone, and the rendered element carries no image source and no load-error
  listener, so this instance does not load the original source again. The four pointer
  handlers are still attached, and the hover and click flags are exactly those of a
  plane that never failed. The opacity is 1 while hovered, in either rendering; at rest
  it is 0.9 for the image and 0.8 for the rectangle; and it does not depend on the press
  flag. Hover and press keep their effect on the scale: with nominal scale (s0, s1, s2)
  and displayed scale (x, y, z), a frame of the failed plane eases width and height at
  blend factor 0.1 toward 1.1 times nominal while hovered, 0.95 times nominal while
  pressed and not hovered, and nominal otherwise.
\<close>

theorem failed_image_falls_back_for_good:
  assumes "st' = plane_run p es (plane_step p LoadError st)"
    and "scale p = (s0, s1, s2)" and "mesh_scale m = (x, y, z)"
    and "f = (if hovered st' then 1.1 else if clicked st' then 0.95 else 1)"
  shows "imageError st'
         \<and> ImagePlane p st' =
             MeshElement (HSL (index p * 30) 70 60) (if hovered st' then 1 else 0.8)
               [PointerOver, PointerOut, PointerDown, PointerUp]
         \<and> (hovered st', clicked st') = pointer_flags es (hovered st, clicked st)
         \<and> opacity (ImagePlane p q) =
             (if hovered q then 1 else if imageError q then 0.8 else 0.9)
         \<and> opacity (ImagePlane p (q\<lparr> clicked := c \<rparr>)) = opacity (ImagePlane p q)
         \<and> map_option mesh_scale (ImagePlane_frame p fo st' time (Some m)) =
             Some (lerp x (s0 * f) 0.1, lerp y (s1 * f) 0.1, lerp z s2 0.1)"
proof -
  have o: "opacity (ImagePlane p q) =
             (if hovered q then 1 else if imageError q then 0.8 else 0.9)
           \<and> opacity (ImagePlane p (q\<lparr> clicked := c \<rparr>)) = opacity (ImagePlane p q)"
    by (simp add: ImagePlane_def)
  have e: "imageError st'"
    unfolding assms(1) by (rule plane_run_error_stays) (rule plane_step_LoadError)
  have "(hovered st', clicked st') =
          pointer_flags es (hovered (plane_step p LoadError st),
                            clicked (plane_step p LoadError st))"
    unfolding assms(1) by (rule plane_run_flags)
  also have "\<dots> = pointer_flags es (pointer_flags [LoadError] (hovered st, clicked st))"
    by (simp only: plane_step_flags)
  also have "\<dots> = pointer_flags es (hovered st, clicked st)"
    by simp
  finally have fl: "(hovered st', clicked st') = pointer_flags es (hovered st, clicked st)" .
  have v: "ImagePlane p st' =
          MeshElement (HSL (index p * 30) 70 60) (if hovered st' then 1 else 0.8)
            [PointerOver, PointerOut, PointerDown, PointerUp]"
    using e by (simp add: ImagePlane_def)
  have ft: "f = targetScale (hovered st') (clicked st')"
    using assms(4) by (simp add: targetScale_def)
  have fr: "map_option mesh_scale (ImagePlane_frame p fo st' time (Some m)) =
             Some (lerp x (s0 * f) 0.1, lerp y (s1 * f) 0.1, lerp z s2 0.1)"
    unfolding ft by (rule frame_scale [OF assms(2) assms(3)])
  from e v fl o fr show ?thesis by blast
qed

theorem failed_image_falls_back_for_good_witness:
  "plane_run
      \<lparr> url = ''a'', position = (0, 0, 0), rotation = (0, 0, 0), scale = (4, 3, 1),
        index = 2, scrollOffset = 0 \<rparr> [PointerOver, PointerDown, PointerOut]
      (plane_step
         \<lparr> url = ''a'', position = (0, 0, 0), rotation = (0, 0, 0), scale = (4, 3, 1),
           index = 2, scrollOffset = 0 \<rparr> LoadError plane_initial) =
     \<lparr> hovered = False, clicked = True, imageError = True \<rparr>
   \<and> ImagePlane
      \<lparr> url = ''a'', position = (0, 0, 0), rotation = (0, 0, 0), scale = (4, 3, 1),
        index = 2, scrollOffset = 0 \<rparr>
      \<lparr> hovered = False, clicked = True, imageError = True \<rparr> =
     MeshElement (HSL 60 70 60) 0.8 [PointerOver, PointerOut, PointerDown, PointerUp]
   \<and> map_option mesh_scale
        (ImagePlane_frame
           \<lparr> url = ''a'', position = (0, 0, 0), rotation = (0, 0, 0), scale = (4, 3, 1),
             index = 2, scrollOffset = 0 \<rparr>
           \<lparr> float_x = 0.1, float_y = 0.1, float_z = 0.1, speed = 1, amplitude = 0.5 \<rparr>
           \<lparr> hovered = False, clicked = True, imageError = True \<rparr> 0
           (Some \<lparr> mesh_position = (0, 0, 0), mesh_scale = (4, 3, 1),
                   mesh_rotation = (0, 0, 0) \<rparr>)) =
       Some (3.98, 2.985, 1)"
proof -
  let ?p = "\<lparr> url = ''a'', position = (0, 0, 0), rotation = (0, 0, 0), scale = (4, 3, 1),
             index = 2, scrollOffset = 0 \<rparr>"
  let ?m = "\<lparr> mesh_position = (0, 0, 0), mesh_scale = (4, 3, 1), mesh_rotation = (0, 0, 0) \<rparr>"
  let ?flo = "\<lparr> float_x = 0.1, float_y = 0.1, float_z = 0.1, speed = 1, amplitude = 0.5 \<rparr>"
  let ?st' = "\<lparr> hovered = False, clicked = True, imageError = True \<rparr>"
  have r: "plane_run ?p [PointerOver, PointerDown, PointerOut]
             (plane_step ?p LoadError plane_initial) = ?st'"
    by (simp add: plane_step_def ImagePlane_def plane_initial_def)
  have h1: "?st' = plane_run ?p [PointerOver, PointerDown, PointerOut]
                     (plane_step ?p LoadError plane_initial)"
    by (simp only: r)
  have h2: "scale ?p = (4, 3, 1)" by simp
  have h3: "mesh_scale ?m = (4, 3, 1)" by simp
  have h4: "(0.95::real) = (if hovered ?st' then 1.1 else if clicked ?st' then 0.95 else 1)"
    by simp
  show ?thesis
    using r failed_image_falls_back_for_good [OF h1 h2 h3 h4,
        where fo = ?flo and time = 0 and q = ?st' and c = True]
    by (simp add: lerp_def)
qed

section \<open>The camera controller\<close>

lemma reachable_zoom_nonzero: "zoomLevel (run es initial) \<noteq> 0"
  using run_zoom_in_range [OF initial_zoom_in_range, of es]
  by (simp add: zoom_in_range_def)

lemma reachable_draft_zoom_nonzero: "draft_zoomLevel (run_draft dYs initial_draft) \<noteq> 0"
proof -
  have "draft_zoom_in_range initial_draft"
    by (simp add: draft_zoom_in_range_def initial_draft_def)
  from run_draft_zoom_in_range [OF this, of dYs] show ?thesis
    by (simp add: draft_zoom_in_range_def)
qed

lemma camera_frame_eq:
  assumes "targetPosition s = (t0, t1, t2)" and "currentPosition cc = (c0, c1, c2)"
  shows "camera_frame s cc =
           \<lparr> the_camera =
               \<lparr> fov = lerp (fov (the_camera cc)) (75 / zoomLevel s) 0.1,
                 camera_position = (lerp c0 (t0 + xy_x (panOffset s)) 0.1,
                                    lerp c1 (t1 + xy_y (panOffset s)) 0.1,
                                    lerp c2 t2 0.1) \<rparr>,
             currentPosition = (lerp c0 (t0 + xy_x (panOffset s)) 0.1,
                                lerp c1 (t1 + xy_y (panOffset s)) 0.1,
                                lerp c2 t2 0.1) \<rparr>"
  using assms by (simp add: camera_frame_def CameraControls_frame_def Let_def)

text \<open>
  Against C6 as it stands, which cites both controllers: one frame of the earlier
  draft's controller, after a wheel event of delta -1000 has brought the zoom level
  from 1 to 2. The field of view jumps from 75 to 37.5, where an interpolation at blend
  factor 0.1 would give 71.25.
\<close>

theorem draft_camera_sets_fov_at_once:
  "draft_zoomLevel (run_draft [- 1000] initial_draft) = 2
   \<and> fov camera_initial = 75
   \<and> fov (camera_frame_draft (run_draft [- 1000] initial_draft) camera_initial) = 37.5
   \<and> lerp (fov camera_initial)
        (75 / draft_zoomLevel (run_draft [- 1000] initial_draft)) 0.1 = 71.25
   \<and> fov (camera_frame_draft (run_draft [- 1000] initial_draft) camera_initial) \<noteq>
       lerp (fov camera_initial)
         (75 / draft_zoomLevel (run_draft [- 1000] initial_draft)) 0.1"
  by (simp add: camera_frame_draft_def CameraControls_frame_draft_def camera_initial_def
        initial_draft_def handleWheel_draft_def lerp_def Let_def)

text \<open>
  C6, as amended. In the refined version, in every state \<open>s\<close> the root component can
  reach, the zoom level is not zero and one frame of the camera controller sets the
  field of view to its interpolation at blend factor 0.1 toward 75 / zoomLevel, and
  sets each axis of the retained running position, and with it the camera position, to
  its own interpolation at blend factor 0.1 toward targetPosition.x + panOffset.x,
  targetPosition.y + panOffset.y and targetPosition.z. The running position is kept
  between frames: a frame under another state \<open>s'\<close> starts from what the previous frame
  left. In the earlier draft, one frame sets the field of view to 75 / zoomLevel itself,
  without interpolation, and leaves the camera position alone.
\<close>

theorem camera_eases_toward_target:
  assumes "s = run es initial" and "targetPosition s = (t0, t1, t2)"
    and "s' = run es' initial" and "targetPosition s' = (u0, u1, u2)"
    and "currentPosition cc = (c0, c1, c2)"
    and "d = run_draft dYs initial_draft"
  shows "zoomLevel s \<noteq> 0
         \<and> camera_frame s cc =
             \<lparr> the_camera =
                 \<lparr> fov = lerp (fov (the_camera cc)) (75 / zoomLevel s) 0.1,
                   camera_position = (lerp c0 (t0 + xy_x (panOffset s)) 0.1,
                                      lerp c1 (t1 + xy_y (panOffset s)) 0.1,
                                      lerp c2 t2 0.1) \<rparr>,
               currentPosition = (lerp c0 (t0 + xy_x (panOffset s)) 0.1,
                                  lerp c1 (t1 + xy_y (panOffset s)) 0.1,
                                  lerp c2 t2 0.1) \<rparr>
         \<and> camera_position (the_camera (camera_frame s' (camera_frame s cc))) =
             (lerp (lerp c0 (t0 + xy_x (panOffset s)) 0.1) (u0 + xy_x (panOffset s')) 0.1,
              lerp (lerp c1 (t1 + xy_y (panOffset s)) 0.1) (u1 + xy_y (panOffset s')) 0.1,
              lerp (lerp c2 t2 0.1) u2 0.1)
         \<and> draft_zoomLevel d \<noteq> 0
         \<and> camera_frame_draft d cam = cam\<lparr> fov := 75 / draft_zoomLevel d \<rparr>
         \<and> camera_position (camera_frame_draft d cam) = camera_position cam"
proof -
  have z: "zoomLevel s \<noteq> 0"
    unfolding assms(1) by (rule reachable_zoom_nonzero)
  have dz: "draft_zoomLevel d \<noteq> 0"
    unfolding assms(6) by (rule reachable_draft_zoom_nonzero)
  note one = camera_frame_eq [OF assms(2) assms(5)]
  have "currentPosition (camera_frame s cc) =
          (lerp c0 (t0 + xy_x (panOffset s)) 0.1,
           lerp c1 (t1 + xy_y (panOffset s)) 0.1,
           lerp c2 t2 0.1)"
    by (simp only: one camera_controls.simps)
  from camera_frame_eq [OF assms(4) this]
  have two: "camera_position (the_camera (camera_frame s' (camera_frame s cc))) =
             (lerp (lerp c0 (t0 + xy_x (panOffset s)) 0.1) (u0 + xy_x (panOffset s')) 0.1,
              lerp (lerp c1 (t1 + xy_y (panOffset s)) 0.1) (u1 + xy_y (panOffset s')) 0.1,
              lerp (lerp c2 t2 0.1) u2 0.1)"
    by (simp only: camera_controls.simps camera.simps)
  have dr: "camera_frame_draft d cam = cam\<lparr> fov := 75 / draft_zoomLevel d \<rparr>
            \<and> camera_position (camera_frame_draft d cam) = camera_position cam"
    by (simp add: camera_frame_draft_def CameraControls_frame_draft_def)
  from z dz one two dr show ?thesis by blast
qed

theorem camera_eases_toward_target_witness:
  "targetPosition (run [KeyDown ''d'', Wheel (- 500)] initial) = (2, 0, 35)
   \<and> targetPosition (run [KeyDown '' ''] initial) = (0, 0, 35)
   \<and> currentPosition controls_initial = (0, 0, 35)
   \<and> camera_frame (run [KeyDown ''d'', Wheel (- 500)] initial) controls_initial =
       \<lparr> the_camera = \<lparr> fov = 71.25, camera_position = (0.2, 0, 35) \<rparr>,
         currentPosition = (0.2, 0, 35) \<rparr>
   \<and> camera_position (the_camera
        (camera_frame (run [KeyDown '' ''] initial)
           (camera_frame (run [KeyDown ''d'', Wheel (- 500)] initial) controls_initial))) =
       (0.18, 0, 35)
   \<and> camera_frame_draft (run_draft [- 1000] initial_draft) camera_initial =
       \<lparr> fov = 37.5, camera_position = (0, 0, 35) \<rparr>"
proof -
  have h1: "run [KeyDown ''d'', Wheel (- 500)] initial = run [KeyDown ''d'', Wheel (- 500)] initial"
    by (rule refl)
  have h2: "targetPosition (run [KeyDown ''d'', Wheel (- 500)] initial) = (2, 0, 35)"
    by (simp add: step_def handleKeyDown_def handleWheel_def initial_def Let_def)
  have h3: "run [KeyDown '' ''] initial = run [KeyDown '' ''] initial"
    by (rule refl)
  have h4: "targetPosition (run [KeyDown '' ''] initial) = (0, 0, 35)"
    by (simp add: step_def handleKeyDown_def initial_def Let_def)
  have h5: "currentPosition controls_initial = (0, 0, 35)"
    by (simp add: controls_initial_def)
  have h6: "run_draft [- 1000] initial_draft = run_draft [- 1000] initial_draft"
    by (rule refl)
  show ?thesis
    using h2 h4 h5 camera_eases_toward_target [OF h1 h2 h3 h4 h5 h6, of camera_initial]
    by (simp add: lerp_def step_def handleKeyDown_def handleWheel_def initial_def Let_def
          handleWheel_draft_def initial_draft_def controls_initial_def camera_initial_def
          camera_frame_def CameraControls_frame_def)
qed

end
